theory Spec2Isabelle
  imports Main "HOL-Library.AList" "HOL-Library.Sublist"
begin

section \<open>Values, objects and the transport call\<close>

text \<open>
  The provisioning module \<^verbatim>\<open>lib/provisioning/account.js\<close> shapes its arguments into a
  call of the transport \<^verbatim>\<open>call_account_api(method, uri, params, callback, options)\<close>.

  A JavaScript value is modelled by \<open>jsval\<close>. An object is an association list in insertion
  order: a key bound to \<open>Undefined\<close> is a key the object has (as in the literal
  \<^verbatim>\<open>{ enabled, ids, prefix }\<close> when \<^verbatim>\<open>enabled\<close> is undefined), which is different from a
  key the object lacks. A function value (the callback) is opaque and carries only an identity.
\<close>

datatype jsval =
    Undefined
  | Null
  | Bool bool
  | Num int
  | Str string
  | Arr "jsval list"
  | Obj "(string \<times> jsval) list"
  | Func nat

type_synonym jsobj = "(string \<times> jsval) list"

text \<open>
  The options object comes from the caller and the module writes into it, so for it the
  model also keeps what decides whether a write takes effect: whether the object is
  extensible, and which of its own keys are read-only (not writable). The entries are data
  properties. An object literal is extensible with every key writable (\<open>plain\<close>);
  \<^verbatim>\<open>Object.freeze\<close> gives an object that is not extensible with every key read-only
  (\<open>frozen\<close>).
\<close>

record js_object =
  entries :: jsobj
  extensible :: bool
  read_only :: "string list"

definition plain :: "jsobj \<Rightarrow> js_object" where
  "plain es = \<lparr>entries = es, extensible = True, read_only = []\<rparr>"


datatype http_method = GET | POST | PUT | DELETE

text \<open>The five arguments the transport is called with, in the order of the source.\<close>

record api_call =
  call_method :: http_method
  call_uri :: "jsval list"
  call_params :: jsobj
  call_callback :: jsval
  call_options :: js_object

text \<open>
  Modelled from the spec: the transport collaborator \<^verbatim>\<open>../api_client/call_account_api\<close> is
  required by the module and is not part of the source tree. The spec gives it as a callable
  accepting (httpMethod, uriSegments, params, completionHandler, options); what it returns is
  out of scope, so a call of it is the record of the arguments it receives.
\<close>

definition call_account_api ::
  "http_method \<Rightarrow> jsval list \<Rightarrow> jsobj \<Rightarrow> jsval \<Rightarrow> js_object \<Rightarrow> api_call" where
  "call_account_api method uri params callback options =
     \<lparr>call_method = method, call_uri = uri, call_params = params,
      call_callback = callback, call_options = options\<rparr>"

text \<open>
  Reading a property, \<^verbatim>\<open>obj.key\<close>: the value bound to the key, \<^verbatim>\<open>undefined\<close>
  when the object has no such key.
\<close>

definition get_prop :: "js_object \<Rightarrow> string \<Rightarrow> jsval" where
  "get_prop obj k = (case map_of (entries obj) k of None \<Rightarrow> Undefined | Some v \<Rightarrow> v)"

text \<open>
  Writing a property, \<^verbatim>\<open>obj.key = v\<close>. The module has no \<^verbatim>\<open>'use strict'\<close> directive, so
  a write that cannot take effect is dropped silently and the object stays as it was: that is
  the write to a read-only key of the object, and the write of a new key to an object that is
  not extensible. A write that takes effect leaves an existing key in its place with the new
  value and puts a new key last (\<^const>\<open>AList.update\<close>); it changes neither the
  extensibility nor the read-only keys. The source writes into the object the caller passed,
  so the object forwarded to the transport is the caller's own object after the write.
\<close>

definition writable :: "js_object \<Rightarrow> string \<Rightarrow> bool" where
  "writable obj k =
     (if k \<in> fst ` set (entries obj) then k \<notin> set (read_only obj) else extensible obj)"

definition set_prop :: "js_object \<Rightarrow> string \<Rightarrow> jsval \<Rightarrow> js_object" where
  "set_prop obj k v =
     (if writable obj k then obj\<lparr>entries := AList.update k v (entries obj)\<rparr> else obj)"

text \<open>
  A default parameter, \<^verbatim>\<open>ids = []\<close>: the default is taken exactly when the argument is
  \<^verbatim>\<open>undefined\<close> (not supplied, or supplied as undefined).
\<close>

definition default_arg :: "jsval \<Rightarrow> jsval \<Rightarrow> jsval" where
  "default_arg a d = (if a = Undefined then d else a)"

text \<open>
  The trailing \<^verbatim>\<open>options = {}\<close> parameter is documented as an object: \<open>None\<close> is the
  argument left out (a fresh empty object literal is made), \<open>Some obj\<close> is the caller's
  object.
\<close>

definition default_options :: "js_object option \<Rightarrow> js_object" where
  "default_options opts = (case opts of None \<Rightarrow> plain [] | Some obj \<Rightarrow> obj)"

text \<open>
  Modelled from the spec: \<^verbatim>\<open>pickOnlyExistingValues\<close> is imported from \<^verbatim>\<open>../utils\<close>, which
  is not part of the source tree. The spec describes it as the utility that strips
  undefined-valued keys: it removes the entries whose value is the absent sentinel and keeps
  the insertion order of the remaining entries. The source calls it as
  \<^verbatim>\<open>pickOnlyExistingValues(hash, ...keys)\<close>; the keys name the fields that are picked. At
  every call site of the module the keys are exactly the keys of the object literal passed.
\<close>

definition pickOnlyExistingValues :: "jsobj \<Rightarrow> string list \<Rightarrow> jsobj" where
  "pickOnlyExistingValues hash keys =
     filter (\<lambda>(k, v). k \<in> set keys \<and> v \<noteq> Undefined) hash"

text \<open>A parameter mapping has no key bound to the absent sentinel.\<close>

definition no_absent :: "jsobj \<Rightarrow> bool" where
  "no_absent ps = (Undefined \<notin> snd ` set ps)"

section \<open>The operations\<close>

subsection \<open>Sub-accounts\<close>

definition sub_accounts ::
  "jsval \<Rightarrow> jsval \<Rightarrow> jsval \<Rightarrow> js_object option \<Rightarrow> jsval \<Rightarrow> api_call" where
  "sub_accounts enabled ids prefix' opts callback =
     (let ids = default_arg ids (Arr []);
          options = default_options opts;
          params = [(''enabled'', enabled), (''ids'', ids), (''prefix'', prefix')];
          uri = [Str ''sub_accounts'']
      in call_account_api GET uri params callback options)"

definition sub_account :: "jsval \<Rightarrow> js_object option \<Rightarrow> jsval \<Rightarrow> api_call" where
  "sub_account sub_account_id opts callback =
     (let options = default_options opts;
          uri = [Str ''sub_accounts'', sub_account_id]
      in call_account_api GET uri [] callback options)"

definition create_sub_account ::
  "jsval \<Rightarrow> jsval \<Rightarrow> jsval \<Rightarrow> jsval \<Rightarrow> jsval \<Rightarrow> js_object option \<Rightarrow> jsval \<Rightarrow> api_call" where
  "create_sub_account name cloud_name custom_attributes enabled base_account opts callback =
     (let options = default_options opts;
          params = [(''cloud_name'', cloud_name), (''name'', name),
                    (''custom_attributes'', custom_attributes), (''enabled'', enabled),
                    (''base_sub_account_id'', base_account)];
          options = set_prop options ''content_type'' (Str ''json'');
          uri = [Str ''sub_accounts'']
      in call_account_api POST uri params callback options)"

definition delete_sub_account :: "jsval \<Rightarrow> js_object option \<Rightarrow> jsval \<Rightarrow> api_call" where
  "delete_sub_account sub_account_id opts callback =
     (let options = default_options opts;
          uri = [Str ''sub_accounts'', sub_account_id]
      in call_account_api DELETE uri [] callback options)"

definition update_sub_account ::
  "jsval \<Rightarrow> jsval \<Rightarrow> jsval \<Rightarrow> jsval \<Rightarrow> jsval \<Rightarrow> js_object option \<Rightarrow> jsval \<Rightarrow> api_call" where
  "update_sub_account sub_account_id name cloud_name custom_attributes enabled opts callback =
     (let options = default_options opts;
          params = [(''cloud_name'', cloud_name), (''name'', name),
                    (''custom_attributes'', custom_attributes), (''enabled'', enabled)];
          options = set_prop options ''content_type'' (Str ''json'');
          uri = [Str ''sub_accounts'', sub_account_id]
      in call_account_api PUT uri params callback options)"

subsection \<open>Users\<close>

definition user :: "jsval \<Rightarrow> js_object option \<Rightarrow> jsval \<Rightarrow> api_call" where
  "user user_id opts callback =
     (let options = default_options opts;
          uri = [Str ''users'', user_id]
      in call_account_api GET uri [] callback options)"

definition users ::
  "jsval \<Rightarrow> jsval \<Rightarrow> jsval \<Rightarrow> jsval \<Rightarrow> js_object option \<Rightarrow> jsval \<Rightarrow> api_call" where
  "users pending user_ids prefix' sub_account_id opts callback =
     (let options = default_options opts;
          uri = [Str ''users''];
          params = [(''ids'', user_ids), (''pending'', pending), (''prefix'', prefix'),
                    (''sub_account_id'', sub_account_id)]
      in call_account_api GET uri
           (pickOnlyExistingValues params [''ids'', ''pending'', ''prefix'', ''sub_account_id''])
           callback options)"

definition create_user ::
  "jsval \<Rightarrow> jsval \<Rightarrow> jsval \<Rightarrow> jsval \<Rightarrow> js_object option \<Rightarrow> jsval \<Rightarrow> api_call" where
  "create_user name email role sub_account_ids opts callback =
     (let options = default_options opts;
          uri = [Str ''users''];
          params = [(''name'', name), (''email'', email), (''role'', role),
                    (''sub_account_ids'', sub_account_ids)];
          options = set_prop options ''content_type'' (Str ''json'')
      in call_account_api POST uri params callback options)"

definition update_user ::
  "jsval \<Rightarrow> jsval \<Rightarrow> jsval \<Rightarrow> jsval \<Rightarrow> jsval \<Rightarrow> js_object option \<Rightarrow> jsval \<Rightarrow> api_call" where
  "update_user user_id name email role sub_account_ids opts callback =
     (let options = default_options opts;
          uri = [Str ''users'', user_id];
          params = [(''name'', name), (''email'', email), (''role'', role),
                    (''sub_account_ids'', sub_account_ids)];
          options = set_prop options ''content_type'' (Str ''json'')
      in call_account_api PUT uri params callback options)"

definition delete_user :: "jsval \<Rightarrow> js_object option \<Rightarrow> jsval \<Rightarrow> api_call" where
  "delete_user user_id opts callback =
     (let options = default_options opts;
          uri = [Str ''users'', user_id]
      in call_account_api DELETE uri [] callback options)"

subsection \<open>User groups\<close>

definition create_user_group :: "jsval \<Rightarrow> js_object option \<Rightarrow> jsval \<Rightarrow> api_call" where
  "create_user_group name opts callback =
     (let options = default_options opts;
          uri = [Str ''user_groups''];
          options = set_prop options ''content_type'' (Str ''json'');
          params = [(''name'', name)]
      in call_account_api POST uri params callback options)"

definition update_user_group :: "jsval \<Rightarrow> jsval \<Rightarrow> js_object option \<Rightarrow> jsval \<Rightarrow> api_call" where
  "update_user_group group_id name opts callback =
     (let options = default_options opts;
          uri = [Str ''user_groups'', group_id];
          params = [(''name'', name)]
      in call_account_api PUT uri params callback options)"

definition delete_user_group :: "jsval \<Rightarrow> js_object option \<Rightarrow> jsval \<Rightarrow> api_call" where
  "delete_user_group group_id opts callback =
     (let options = default_options opts;
          uri = [Str ''user_groups'', group_id]
      in call_account_api DELETE uri [] callback options)"

definition add_user_to_group :: "jsval \<Rightarrow> jsval \<Rightarrow> js_object option \<Rightarrow> jsval \<Rightarrow> api_call" where
  "add_user_to_group group_id user_id opts callback =
     (let options = default_options opts;
          uri = [Str ''user_groups'', group_id, Str ''users'', user_id]
      in call_account_api POST uri [] callback options)"

definition remove_user_from_group ::
  "jsval \<Rightarrow> jsval \<Rightarrow> js_object option \<Rightarrow> jsval \<Rightarrow> api_call" where
  "remove_user_from_group group_id user_id opts callback =
     (let options = default_options opts;
          uri = [Str ''user_groups'', group_id, Str ''users'', user_id]
      in call_account_api DELETE uri [] callback options)"

definition user_group :: "jsval \<Rightarrow> js_object option \<Rightarrow> jsval \<Rightarrow> api_call" where
  "user_group group_id opts callback =
     (let options = default_options opts;
          uri = [Str ''user_groups'', group_id]
      in call_account_api GET uri [] callback options)"

definition user_groups :: "js_object option \<Rightarrow> jsval \<Rightarrow> api_call" where
  "user_groups opts callback =
     (let options = default_options opts;
          uri = [Str ''user_groups'']
      in call_account_api GET uri [] callback options)"

definition user_group_users :: "jsval \<Rightarrow> js_object option \<Rightarrow> jsval \<Rightarrow> api_call" where
  "user_group_users group_id opts callback =
     (let options = default_options opts;
          uri = [Str ''user_groups'', group_id, Str ''users'']
      in call_account_api GET uri [] callback options)"

subsection \<open>Access keys\<close>

definition access_keys :: "jsval \<Rightarrow> js_object option \<Rightarrow> jsval \<Rightarrow> api_call" where
  "access_keys sub_account_id opts callback =
     (let options = default_options opts;
          params = pickOnlyExistingValues
                     [(''page_size'', get_prop options ''page_size''),
                      (''page'', get_prop options ''page''),
                      (''sort_by'', get_prop options ''sort_by''),
                      (''sort_order'', get_prop options ''sort_order'')]
                     [''page_size'', ''page'', ''sort_by'', ''sort_order''];
          uri = [Str ''sub_accounts'', sub_account_id, Str ''access_keys'']
      in call_account_api GET uri params callback options)"

definition generate_access_key :: "jsval \<Rightarrow> js_object option \<Rightarrow> jsval \<Rightarrow> api_call" where
  "generate_access_key sub_account_id opts callback =
     (let options = default_options opts;
          params = pickOnlyExistingValues
                     [(''name'', get_prop options ''name''), (''enabled'', get_prop options ''enabled'')]
                     [''name'', ''enabled''];
          options = set_prop options ''content_type'' (Str ''json'');
          uri = [Str ''sub_accounts'', sub_account_id, Str ''access_keys'']
      in call_account_api POST uri params callback options)"

definition update_access_key :: "jsval \<Rightarrow> jsval \<Rightarrow> js_object option \<Rightarrow> jsval \<Rightarrow> api_call" where
  "update_access_key sub_account_id api_key opts callback =
     (let options = default_options opts;
          params = pickOnlyExistingValues
                     [(''name'', get_prop options ''name''), (''enabled'', get_prop options ''enabled'')]
                     [''name'', ''enabled''];
          options = set_prop options ''content_type'' (Str ''json'');
          uri = [Str ''sub_accounts'', sub_account_id, Str ''access_keys'', api_key]
      in call_account_api PUT uri params callback options)"

definition delete_access_key :: "jsval \<Rightarrow> jsval \<Rightarrow> js_object option \<Rightarrow> jsval \<Rightarrow> api_call" where
  "delete_access_key sub_account_id api_key opts callback =
     (let options = default_options opts;
          uri = [Str ''sub_accounts'', sub_account_id, Str ''access_keys'', api_key]
      in call_account_api DELETE uri [] callback options)"

definition delete_access_key_by_name :: "jsval \<Rightarrow> js_object option \<Rightarrow> jsval \<Rightarrow> api_call" where
  "delete_access_key_by_name sub_account_id opts callback =
     (let options = default_options opts;
          params = [(''name'', get_prop options ''name'')];
          uri = [Str ''sub_accounts'', sub_account_id, Str ''access_keys'']
      in call_account_api DELETE uri params callback options)"

subsection \<open>The exported table\<close>

text \<open>
  \<^verbatim>\<open>module.exports\<close> lists the twenty-three operations. A caller invokes one of them with
  positional arguments; a positional argument that is left out is \<^verbatim>\<open>undefined\<close>.
\<close>

datatype export =
    Sub_accounts | Create_sub_account | Delete_sub_account | Sub_account | Update_sub_account
  | User | Users | User_group | User_groups | User_group_users | Remove_user_from_group
  | Delete_user | Update_user_group | Update_user | Create_user | Create_user_group
  | Add_user_to_group | Delete_user_group | Access_keys | Generate_access_key
  | Update_access_key | Delete_access_key | Delete_access_key_by_name

definition arg :: "jsval list \<Rightarrow> nat \<Rightarrow> jsval" where
  "arg args i = (if i < length args then args ! i else Undefined)"

definition invoke :: "export \<Rightarrow> jsval list \<Rightarrow> js_object option \<Rightarrow> jsval \<Rightarrow> api_call" where
  "invoke f a opts cb =
     (case f of
        Sub_accounts \<Rightarrow> sub_accounts (arg a 0) (arg a 1) (arg a 2) opts cb
      | Create_sub_account \<Rightarrow>
          create_sub_account (arg a 0) (arg a 1) (arg a 2) (arg a 3) (arg a 4) opts cb
      | Delete_sub_account \<Rightarrow> delete_sub_account (arg a 0) opts cb
      | Sub_account \<Rightarrow> sub_account (arg a 0) opts cb
      | Update_sub_account \<Rightarrow>
          update_sub_account (arg a 0) (arg a 1) (arg a 2) (arg a 3) (arg a 4) opts cb
      | User \<Rightarrow> user (arg a 0) opts cb
      | Users \<Rightarrow> users (arg a 0) (arg a 1) (arg a 2) (arg a 3) opts cb
      | User_group \<Rightarrow> user_group (arg a 0) opts cb
      | User_groups \<Rightarrow> user_groups opts cb
      | User_group_users \<Rightarrow> user_group_users (arg a 0) opts cb
      | Remove_user_from_group \<Rightarrow> remove_user_from_group (arg a 0) (arg a 1) opts cb
      | Delete_user \<Rightarrow> delete_user (arg a 0) opts cb
      | Update_user_group \<Rightarrow> update_user_group (arg a 0) (arg a 1) opts cb
      | Update_user \<Rightarrow> update_user (arg a 0) (arg a 1) (arg a 2) (arg a 3) (arg a 4) opts cb
      | Create_user \<Rightarrow> create_user (arg a 0) (arg a 1) (arg a 2) (arg a 3) opts cb
      | Create_user_group \<Rightarrow> create_user_group (arg a 0) opts cb
      | Add_user_to_group \<Rightarrow> add_user_to_group (arg a 0) (arg a 1) opts cb
      | Delete_user_group \<Rightarrow> delete_user_group (arg a 0) opts cb
      | Access_keys \<Rightarrow> access_keys (arg a 0) opts cb
      | Generate_access_key \<Rightarrow> generate_access_key (arg a 0) opts cb
      | Update_access_key \<Rightarrow> update_access_key (arg a 0) (arg a 1) opts cb
      | Delete_access_key \<Rightarrow> delete_access_key (arg a 0) (arg a 1) opts cb
      | Delete_access_key_by_name \<Rightarrow> delete_access_key_by_name (arg a 0) opts cb)"

text \<open>
  The only thing an invocation leaves behind is what it wrote into the caller's options
  object: after the call, an object the caller passed is the object that was forwarded. When
  the argument was left out, the object made by the default is local to the call and the
  caller still has nothing to pass.
\<close>

definition options_after :: "js_object option \<Rightarrow> api_call \<Rightarrow> js_object option" where
  "options_after opts c = (case opts of None \<Rightarrow> None | Some obj \<Rightarrow> Some (call_options c))"

section \<open>Basic facts\<close>

lemmas op_defs =
  sub_accounts_def sub_account_def create_sub_account_def delete_sub_account_def
  update_sub_account_def user_def users_def create_user_def update_user_def delete_user_def
  create_user_group_def update_user_group_def delete_user_group_def add_user_to_group_def
  remove_user_from_group_def user_group_def user_groups_def user_group_users_def
  access_keys_def generate_access_key_def update_access_key_def delete_access_key_def
  delete_access_key_by_name_def

lemma call_simps:
  "call_method (call_account_api m u p cb opts) = m"
  "call_uri (call_account_api m u p cb opts) = u"
  "call_params (call_account_api m u p cb opts) = p"
  "call_callback (call_account_api m u p cb opts) = cb"
  "call_options (call_account_api m u p cb opts) = opts"
  by (simp_all add: call_account_api_def)

lemma writable_plain: "writable (plain es) k"
  by (simp add: writable_def plain_def)

lemma writable_default: "writable (default_options None) k"
  by (simp add: default_options_def writable_plain)

lemma get_prop_set_prop_same: "writable obj k \<Longrightarrow> get_prop (set_prop obj k v) k = v"
  by (simp add: get_prop_def set_prop_def update_conv')

lemma get_prop_set_prop_other:
  "k' \<noteq> k \<Longrightarrow> get_prop (set_prop obj k v) k' = get_prop obj k'"
  by (simp add: get_prop_def set_prop_def update_conv')



lemma set_prop_unwritable: "\<not> writable obj k \<Longrightarrow> set_prop obj k v = obj"
  by (simp add: set_prop_def)


lemma set_prop_twice: "set_prop (set_prop obj k v) k v = set_prop obj k v"
  by (simp add: set_prop_def writable_def dom_update)

lemma no_absent_pick: "no_absent (pickOnlyExistingValues hash keys)"
  by (auto simp: no_absent_def pickOnlyExistingValues_def)

section \<open>The content-type annotation\<close>

text \<open>
  Seven of the eight create/update operations write \<^verbatim>\<open>options.content_type = "json"\<close>
  before forwarding: whenever the options object takes the write, the forwarded options have
  it.
\<close>

lemma content_type_json_set:
  assumes "writable (default_options opts) ''content_type''"
  shows
  "get_prop (call_options (create_sub_account n c a e b opts cb)) ''content_type'' = Str ''json''"
  "get_prop (call_options (update_sub_account i n c a e opts cb)) ''content_type'' = Str ''json''"
  "get_prop (call_options (create_user n em r s opts cb)) ''content_type'' = Str ''json''"
  "get_prop (call_options (update_user i n em r s opts cb)) ''content_type'' = Str ''json''"
  "get_prop (call_options (create_user_group n opts cb)) ''content_type'' = Str ''json''"
  "get_prop (call_options (generate_access_key i opts cb)) ''content_type'' = Str ''json''"
  "get_prop (call_options (update_access_key i k opts cb)) ''content_type'' = Str ''json''"
  using assms by (simp_all add: op_defs Let_def call_simps get_prop_set_prop_same)

text \<open>
  C1. The claim lists \<^verbatim>\<open>update_user_group\<close> among the operations that forward
  \<^verbatim>\<open>content_type = "json"\<close>. Its body has no such write: called as
  \<^verbatim>\<open>update_user_group("grp1", "Designers", {})\<close> it forwards the empty options object as
  it is, and reading \<^verbatim>\<open>content_type\<close> from the forwarded options gives \<^verbatim>\<open>undefined\<close>,
  while \<^verbatim>\<open>create_user_group\<close> on the same options forwards \<^verbatim>\<open>"json"\<close>.
\<close>

theorem update_user_group_content_type_unset:
  "call_options (update_user_group (Str ''grp1'') (Str ''Designers'') (Some (plain [])) Undefined)
     = plain [] \<and>
   get_prop
     (call_options (update_user_group (Str ''grp1'') (Str ''Designers'') (Some (plain [])) Undefined))
     ''content_type'' = Undefined \<and>
   get_prop (call_options (create_user_group (Str ''Designers'') (Some (plain [])) Undefined))
     ''content_type'' = Str ''json''"
  by (simp add: update_user_group_def create_user_group_def call_simps default_options_def
      get_prop_def set_prop_def writable_def plain_def)

section \<open>Filtered and unfiltered parameters\<close>

text \<open>
  C2, as stated, fails for \<^verbatim>\<open>sub_accounts\<close>: the call \<^verbatim>\<open>sub_accounts(true)\<close> forwards
  \<^verbatim>\<open>{enabled: true, ids: [], prefix: undefined}\<close>, a mapping with a key bound to the
  absent sentinel.
\<close>

theorem sub_accounts_forwards_absent:
  "\<not> no_absent (call_params (sub_accounts (Bool True) Undefined Undefined None Undefined))"
  by (simp add: sub_accounts_def call_simps no_absent_def default_arg_def)

text \<open>
  C2, amended. The params forwarded by \<^verbatim>\<open>users\<close>, \<^verbatim>\<open>access_keys\<close>,
  \<^verbatim>\<open>generate_access_key\<close> and \<^verbatim>\<open>update_access_key\<close> are the result of the
  existing-values-only filter and hold no key bound to the absent sentinel. The three
  access-key operations take the filtered fields from the options mapping; \<^verbatim>\<open>users\<close> takes
  them from its positional arguments, and \<^verbatim>\<open>sub_accounts\<close> forwards its three positional
  fields without the filter (with \<^verbatim>\<open>ids\<close> defaulted); neither depends on the options.
\<close>

theorem filtered_params:
  "call_params (users pending user_ids prefix' sid opts cb) =
     pickOnlyExistingValues
       [(''ids'', user_ids), (''pending'', pending), (''prefix'', prefix'), (''sub_account_id'', sid)]
       [''ids'', ''pending'', ''prefix'', ''sub_account_id''] \<and>
   call_params (access_keys sid opts cb) =
     pickOnlyExistingValues
       [(''page_size'', get_prop (default_options opts) ''page_size''),
        (''page'', get_prop (default_options opts) ''page''),
        (''sort_by'', get_prop (default_options opts) ''sort_by''),
        (''sort_order'', get_prop (default_options opts) ''sort_order'')]
       [''page_size'', ''page'', ''sort_by'', ''sort_order''] \<and>
   call_params (generate_access_key sid opts cb) =
     pickOnlyExistingValues
       [(''name'', get_prop (default_options opts) ''name''),
        (''enabled'', get_prop (default_options opts) ''enabled'')]
       [''name'', ''enabled''] \<and>
   call_params (update_access_key sid api_key opts cb) =
     pickOnlyExistingValues
       [(''name'', get_prop (default_options opts) ''name''),
        (''enabled'', get_prop (default_options opts) ''enabled'')]
       [''name'', ''enabled''] \<and>
   no_absent (call_params (users pending user_ids prefix' sid opts cb)) \<and>
   no_absent (call_params (access_keys sid opts cb)) \<and>
   no_absent (call_params (generate_access_key sid opts cb)) \<and>
   no_absent (call_params (update_access_key sid api_key opts cb)) \<and>
   call_params (sub_accounts enabled ids prefix' opts cb) =
     [(''enabled'', enabled), (''ids'', default_arg ids (Arr [])), (''prefix'', prefix')]"
  by (simp add: op_defs Let_def call_simps no_absent_pick)

text \<open>
  C3, as stated, fails in its second half: \<^verbatim>\<open>delete_access_key_by_name\<close> builds
  \<^verbatim>\<open>{ name: options.name }\<close> without the filter, so with \<^verbatim>\<open>name\<close> unset (here
  \<^verbatim>\<open>options = {}\<close>) the key \<^verbatim>\<open>name\<close> is still a key of the forwarded params.
\<close>

theorem delete_by_name_forwards_absent_name:
  "''name'' \<in>
     fst ` set (call_params (delete_access_key_by_name (Str ''acct1'') (Some (plain [])) Undefined))"
  by (simp add: delete_access_key_by_name_def Let_def call_simps)

text \<open>
  C3, amended. Called with \<^verbatim>\<open>sub_account_id = "acct1"\<close> and \<^verbatim>\<open>options = {name: "key1"}\<close>,
  \<^verbatim>\<open>delete_access_key_by_name\<close> forwards
  \<^verbatim>\<open>(DELETE, ["sub_accounts", "acct1", "access_keys"], {name: "key1"})\<close> together with the
  callback and the options. On every call the params mapping is the single key \<^verbatim>\<open>name\<close>
  bound to \<^verbatim>\<open>options.name\<close> (the absent sentinel when \<^verbatim>\<open>name\<close> is unset), so no other
  option, such as \<^verbatim>\<open>page\<close>, is ever a key of it.
\<close>

theorem delete_access_key_by_name_descriptor:
  "delete_access_key_by_name (Str ''acct1'') (Some (plain [(''name'', Str ''key1'')])) cb =
     \<lparr>call_method = DELETE,
      call_uri = [Str ''sub_accounts'', Str ''acct1'', Str ''access_keys''],
      call_params = [(''name'', Str ''key1'')],
      call_callback = cb,
      call_options = plain [(''name'', Str ''key1'')]\<rparr> \<and>
   call_params (delete_access_key_by_name sid opts cb) =
     [(''name'', get_prop (default_options opts) ''name'')]"
  by (simp add: delete_access_key_by_name_def Let_def call_account_api_def default_options_def
      get_prop_def plain_def)

text \<open>
  C4. Each operation that applies the pick-existing filter (\<^verbatim>\<open>users\<close>, \<^verbatim>\<open>access_keys\<close>,
  \<^verbatim>\<open>generate_access_key\<close>, \<^verbatim>\<open>update_access_key\<close>) forwards a params mapping with no
  key bound to the absent sentinel, whatever arguments and options are supplied or left out.
\<close>

theorem pick_existing_params_no_absent:
  "no_absent (call_params (users pending user_ids prefix' sid opts cb)) \<and>
   no_absent (call_params (access_keys sid opts cb)) \<and>
   no_absent (call_params (generate_access_key sid opts cb)) \<and>
   no_absent (call_params (update_access_key sid api_key opts cb))"
  by (simp add: users_def access_keys_def generate_access_key_def update_access_key_def
      Let_def call_simps no_absent_pick)

section \<open>The options of create-sub-account\<close>




section \<open>Listing access keys\<close>

text \<open>
  C6. When \<^verbatim>\<open>options.page_size\<close> is set and \<^verbatim>\<open>page\<close>, \<^verbatim>\<open>sort_by\<close> and
  \<^verbatim>\<open>sort_order\<close> are unset (absent from the options, or bound to \<^verbatim>\<open>undefined\<close>),
  \<^verbatim>\<open>access_keys\<close> forwards exactly \<^verbatim>\<open>{page_size: value}\<close>, which has no key bound to the
  absent sentinel.
\<close>

theorem access_keys_only_page_size:
  assumes "get_prop obj ''page_size'' = v" and "v \<noteq> Undefined"
    and "get_prop obj ''page'' = Undefined"
    and "get_prop obj ''sort_by'' = Undefined"
    and "get_prop obj ''sort_order'' = Undefined"
  shows "call_params (access_keys sid (Some obj) cb) = [(''page_size'', v)] \<and>
         no_absent (call_params (access_keys sid (Some obj) cb))"
  using assms
  by (simp add: access_keys_def call_simps default_options_def pickOnlyExistingValues_def
      no_absent_def)

theorem access_keys_only_page_size_witness:
  "call_params (access_keys (Str ''acct1'') (Some (plain [(''page_size'', Num 25)])) Undefined)
     = [(''page_size'', Num 25)] \<and>
   no_absent
     (call_params (access_keys (Str ''acct1'') (Some (plain [(''page_size'', Num 25)])) Undefined))"
proof -
  have "get_prop (plain [(''page_size'', Num 25)]) ''page_size'' = Num 25"
    and "Num 25 \<noteq> Undefined"
    and "get_prop (plain [(''page_size'', Num 25)]) ''page'' = Undefined"
    and "get_prop (plain [(''page_size'', Num 25)]) ''sort_by'' = Undefined"
    and "get_prop (plain [(''page_size'', Num 25)]) ''sort_order'' = Undefined"
    by (simp_all add: get_prop_def plain_def)
  then show ?thesis
    by (rule access_keys_only_page_size)
qed

section \<open>The filter\<close>

text \<open>
  C7. The filter is idempotent: for every mapping and every keys, filtering the filtered
  mapping again gives the filtered mapping. It keeps insertion order: its result is the
  mapping with some entries left out, the others in their order.
\<close>

theorem pickOnlyExistingValues_idempotent:
  "pickOnlyExistingValues (pickOnlyExistingValues hash keys) keys
     = pickOnlyExistingValues hash keys \<and>
   subseq (pickOnlyExistingValues hash keys) hash"
  by (simp add: pickOnlyExistingValues_def)

section \<open>Group membership\<close>

text \<open>
  C8. \<^verbatim>\<open>add_user_to_group\<close> and \<^verbatim>\<open>remove_user_from_group\<close> forward the URI segments
  \<^verbatim>\<open>["user_groups", group_id, "users", user_id]\<close>, the group before the user, for all
  identifiers.
\<close>

theorem group_membership_uri:
  "call_uri (add_user_to_group group_id user_id opts cb)
     = [Str ''user_groups'', group_id, Str ''users'', user_id] \<and>
   call_uri (remove_user_from_group group_id user_id opts cb)
     = [Str ''user_groups'', group_id, Str ''users'', user_id]"
  by (simp add: add_user_to_group_def remove_user_from_group_def call_simps)

section \<open>Determinism\<close>

text \<open>
  C9. No operation reads anything but its arguments: the module has no variable of its own
  besides its two imports, and the defaults \<^verbatim>\<open>{}\<close> and \<^verbatim>\<open>[]\<close> are made anew at each
  call, so every operation is a function of its arguments. What one invocation does leave
  behind is the \<^verbatim>\<open>content_type\<close> it wrote into the caller's options object. Invoking any
  exported operation a second time with the same arguments, the options object being the
  caller's object as the first invocation left it, forwards the same method, URI, params,
  callback and options as the first invocation did.
\<close>

theorem invoke_again_same_descriptor:
  "invoke f a (options_after opts (invoke f a opts cb)) cb = invoke f a opts cb"
proof (cases opts)
  case None
  then show ?thesis by (simp add: options_after_def)
next
  case (Some obj)
  have keep: "get_prop (set_prop obj ''content_type'' v) ''name'' = get_prop obj ''name''"
    "get_prop (set_prop obj ''content_type'' v) ''enabled'' = get_prop obj ''enabled''" for v
    by (simp_all add: get_prop_set_prop_other)
  show ?thesis
    unfolding Some options_after_def
    by (cases f)
      (simp_all add: invoke_def op_defs Let_def call_simps default_options_def
        set_prop_twice keep)
qed

section \<open>The default of ids\<close>

text \<open>
  C10. \<^verbatim>\<open>sub_accounts\<close> forwards the three keys \<^verbatim>\<open>enabled\<close>, \<^verbatim>\<open>ids\<close>, \<^verbatim>\<open>prefix\<close> on
  every call. With \<^verbatim>\<open>ids\<close> not supplied the key \<^verbatim>\<open>ids\<close> is bound to the empty list,
  the declared default, while \<^verbatim>\<open>enabled\<close> and \<^verbatim>\<open>prefix\<close> not supplied are bound to the
  absent sentinel; so \<^verbatim>\<open>ids\<close> is a key of the forwarded params of every call.
\<close>

theorem sub_accounts_ids_default:
  "call_params (sub_accounts enabled ids prefix' opts cb)
     = [(''enabled'', enabled), (''ids'', if ids = Undefined then Arr [] else ids),
        (''prefix'', prefix')] \<and>
   call_params (sub_accounts Undefined Undefined Undefined opts cb)
     = [(''enabled'', Undefined), (''ids'', Arr []), (''prefix'', Undefined)] \<and>
   map_of (call_params (sub_accounts enabled Undefined prefix' opts cb)) ''ids'' = Some (Arr []) \<and>
   ''ids'' \<in> fst ` set (call_params (sub_accounts enabled ids prefix' opts cb))"
  by (simp add: sub_accounts_def call_simps default_arg_def)

end
